theory Spec2Isabelle
  imports Main "HOL-Library.Sublist"
begin

section \<open>The command-execution handler of \<open>app.py\<close>\<close>

text \<open>
  The whole program is
  \<^verbatim>\<open>
  app = Flask(__name__)

  @app.route('/', methods=['POST'])
  def run_command():
      data = request.get_json()
      cmd = data.get("cmd")
      result = os.popen(cmd).read()
      return {"output": result}, 200

  if __name__ == '__main__':
      app.run(host='0.0.0.0', port=3000)
  \<close>
  The handler is embedded as a function of the request, with the two things it touches
  outside itself made explicit: the value the framework parsed from the body, and the
  host on which \<open>os.popen\<close> starts a shell. The host is a parameter of the model. A
  character of a string stands for one code point of a Python \<open>str\<close>.
\<close>

subsection \<open>Python values and exceptions\<close>

text \<open>
  What \<open>request.get_json()\<close> can hand to the handler: the Python image of a JSON document.
  A \<open>dict\<close> is an association list read with \<open>map_of\<close>.
\<close>

datatype pyfloat = Finite int int | PosInf | NegInf | NaN

datatype pyval =
    PNone
  | PBool bool
  | PInt int
  | PFloat pyfloat
  | PStr string
  | PList "pyval list"
  | PDict "(string \<times> pyval) list"

text \<open>
  The exceptions that can leave the handler. \<open>BadRequest\<close> and \<open>UnsupportedMediaType\<close>
  are the HTTP errors \<open>get_json\<close> raises for a body it cannot parse; the others are
  ordinary Python exceptions.
\<close>

datatype pyexc =
    BadRequest
  | UnsupportedMediaType
  | AttributeError
  | TypeError
  | ValueError
  | OSError
  | UnicodeEncodeError
  | UnicodeDecodeError

subsection \<open>The host and its shell\<close>

text \<open>
  A finished child process: the characters it wrote on each of its two output streams
  (its bytes, decoded), exactly as written, and its exit status.
\<close>

record proc_result =
  stdout :: string
  stderr :: string
  exit_status :: nat

text \<open>
  The host shell, for a host state of type \<open>'h\<close> (file system, environment, ...): running a
  command line in a host state gives the finished process and the host state the command
  leaves behind. Instead of a finished process the answer can be an exception: one that
  Python raises before any child exists (\<open>UnicodeEncodeError\<close> for a command line that
  cannot be encoded as a process argument, \<open>OSError\<close> when no process can be created), or
  \<open>UnicodeDecodeError\<close>, raised by \<open>read()\<close> after the child has run, when what it wrote
  cannot be decoded.
\<close>

type_synonym 'h shell = "'h \<Rightarrow> string \<Rightarrow> (pyexc + proc_result) \<times> 'h"

text \<open>
  The world the handler runs in: the host state, and the list of the command lines on
  which a shell has been started so far (oldest first). The list is bookkeeping of the
  model; no function below reads it.
\<close>

record 'h world =
  host :: 'h
  shell_calls :: "string list"

subsection \<open>Requests and responses\<close>

datatype http_method = GET | HEAD | POST | PUT | DELETE | PATCH | OPTIONS

text \<open>
  A request as the handler sees it: method, path, and what \<open>request.get_json()\<close> yields
  for its body (the parsed value, or the exception the framework raises).
\<close>

record request =
  req_method :: http_method
  req_path :: string
  req_json :: "pyexc + pyval"

datatype resp_body = JsonBody pyval | ErrorPage

record response =
  status :: nat
  body :: resp_body

text \<open>A POST to \<open>/\<close> whose body parses to the value \<open>v\<close>.\<close>

definition post_json :: "pyval \<Rightarrow> request" where
  "post_json v = \<lparr>req_method = POST, req_path = ''/'', req_json = Inr v\<rparr>"

subsection \<open>The three calls of the handler\<close>

text \<open>\<open>request.get_json()\<close>\<close>

definition get_json :: "request \<Rightarrow> pyexc + pyval" where
  "get_json req = req_json req"

text \<open>
  \<open>data.get("cmd")\<close>: on a \<open>dict\<close>, the value stored under the key, or \<open>None\<close> when the
  key is absent; every other value \<open>get_json\<close> can return (\<open>None\<close>, a bool, a number, a
  string, a list) has no attribute \<open>get\<close>.
\<close>

fun data_get :: "pyval \<Rightarrow> string \<Rightarrow> pyexc + pyval" where
  "data_get (PDict kvs) k = Inr (case map_of kvs k of None \<Rightarrow> PNone | Some v \<Rightarrow> v)"
| "data_get _ k = Inl AttributeError"

text \<open>
  The pipe of \<open>os.popen\<close> is read in text mode with universal newlines: in what \<open>read()\<close>
  returns, every carriage return followed by a line feed, and every other carriage
  return, has become a single line feed.
\<close>

fun universal_newlines :: "string \<Rightarrow> string" where
  "universal_newlines [] = []"
| "universal_newlines [c] = (if c = CHR 0x0D then [CHR 0x0A] else [c])"
| "universal_newlines (c # d # cs) =
     (if c = CHR 0x0D \<and> d = CHR 0x0A then CHR 0x0A # universal_newlines cs
      else if c = CHR 0x0D then CHR 0x0A # universal_newlines (d # cs)
      else c # universal_newlines (d # cs))"

text \<open>
  Whether a shell has run, given the answer of the host: it has when there is a finished
  process, and when the exception is the one \<open>read()\<close> raises on its output.
\<close>

fun shell_started :: "pyexc + proc_result \<Rightarrow> bool" where
  "shell_started (Inr p) = True"
| "shell_started (Inl e) = (e = UnicodeDecodeError)"

text \<open>
  \<open>os.popen(cmd).read()\<close>: \<open>os.popen\<close> raises \<open>TypeError\<close> for a \<open>cmd\<close> that is not a
  \<open>str\<close>, and \<open>ValueError\<close> for a \<open>str\<close> that contains the character NUL; nothing has
  been started then. For any other \<open>str\<close> it asks the host to start its shell on that
  command line with a pipe on the child's standard output only, and \<open>read()\<close> returns
  what the child wrote there, with universal newlines. The child's standard error is not
  redirected and its exit status is not read. When the host raises before a child
  exists, the world is as it was.
\<close>

definition os_popen_read :: "'h shell \<Rightarrow> 'h world \<Rightarrow> pyval \<Rightarrow> (pyexc + string) \<times> 'h world" where
  "os_popen_read sh w cmd =
     (case cmd of
        PStr s \<Rightarrow>
          (if CHR 0x00 \<in> set s then (Inl ValueError, w)
           else
             (case sh (host w) s of
                (Inl e, h') \<Rightarrow>
                  (Inl e, if shell_started (Inl e)
                          then \<lparr>host = h', shell_calls = shell_calls w @ [s]\<rparr> else w)
              | (Inr p, h') \<Rightarrow>
                  (Inr (universal_newlines (stdout p)),
                   \<lparr>host = h', shell_calls = shell_calls w @ [s]\<rparr>)))
      | _ \<Rightarrow> (Inl TypeError, w))"

text \<open>The test \<open>isinstance(cmd, str)\<close> that \<open>os.popen\<close> makes on its argument.\<close>

fun is_str :: "pyval \<Rightarrow> bool" where
  "is_str (PStr s) = True"
| "is_str _ = False"


subsection \<open>The handler\<close>

definition run_command :: "'h shell \<Rightarrow> 'h world \<Rightarrow> request \<Rightarrow> (pyexc + pyval \<times> nat) \<times> 'h world" where
  "run_command sh w req =
     (case get_json req of
        Inl e \<Rightarrow> (Inl e, w)
      | Inr data \<Rightarrow>
          (case data_get data ''cmd'' of
             Inl e \<Rightarrow> (Inl e, w)
           | Inr cmd \<Rightarrow>
               (case os_popen_read sh w cmd of
                  (Inl e, w') \<Rightarrow> (Inl e, w')
                | (Inr result, w') \<Rightarrow> (Inr (PDict [(''output'', PStr result)], 200), w'))))"

subsection \<open>The route table and the server\<close>

text \<open>\<open>@app.route('/', methods=['POST'])\<close> is the only registration in the program.\<close>

record route =
  rule :: string
  methods :: "http_method list"

definition app_routes :: "route list" where
  "app_routes = [\<lparr>rule = ''/'', methods = [POST]\<rparr>]"

definition matches :: "request \<Rightarrow> route \<Rightarrow> bool" where
  "matches req r = (rule r = req_path req \<and> List.member (methods r) (req_method req))"

text \<open>
  The status of an exception that leaves the handler: an HTTP error keeps its own status,
  any other exception is an unhandled fault, answered with 500.
\<close>

fun exc_status :: "pyexc \<Rightarrow> nat" where
  "exc_status BadRequest = 400"
| "exc_status UnsupportedMediaType = 415"
| "exc_status _ = 500"

text \<open>
  Serving one request. A request that matches no registered route never reaches the
  program's code; what the framework answers then is not part of the program, and the
  model returns \<open>None\<close>.
\<close>

definition serve :: "'h shell \<Rightarrow> 'h world \<Rightarrow> request \<Rightarrow> response option \<times> 'h world" where
  "serve sh w req =
     (if list_ex (matches req) app_routes then
        (case run_command sh w req of
           (Inr (v, code), w') \<Rightarrow> (Some \<lparr>status = code, body = JsonBody v\<rparr>, w')
         | (Inl e, w') \<Rightarrow> (Some \<lparr>status = exc_status e, body = ErrorPage\<rparr>, w'))
      else (None, w))"

text \<open>Serving requests one after the other, each in the world the previous one left.\<close>

fun serve_all :: "'h shell \<Rightarrow> 'h world \<Rightarrow> request list \<Rightarrow> response option list \<times> 'h world" where
  "serve_all sh w [] = ([], w)"
| "serve_all sh w (r # rs) =
     (case serve sh w r of
        (a, w') \<Rightarrow> (case serve_all sh w' rs of (as, w'') \<Rightarrow> (a # as, w'')))"

subsection \<open>A sample host\<close>

text \<open>
  A small host on which the handler can be run: its state is a list of files (name and
  contents, the first entry for a name counts), and its shell knows a handful of command
  lines, on which it behaves as a POSIX \<open>sh\<close> does; any other command line is answered as
  an unknown command.
\<close>

type_synonym demo_host = "(string \<times> string) list"

definition demo_shell :: "demo_host shell" where
  "demo_shell h cmd =
     (if cmd = ''echo hello'' then
        (Inr \<lparr>stdout = ''hello\<newline>'', stderr = '''', exit_status = 0\<rparr>, h)
      else if cmd = '''' then
        (Inr \<lparr>stdout = '''', stderr = '''', exit_status = 0\<rparr>, h)
      else if cmd = ''exit 1'' then
        (Inr \<lparr>stdout = '''', stderr = '''', exit_status = 1\<rparr>, h)
      else if cmd = ''echo out; echo err >&2'' then
        (Inr \<lparr>stdout = ''out\<newline>'', stderr = ''err\<newline>'', exit_status = 0\<rparr>, h)
      else if cmd = ''echo hi > /tmp/f'' then
        (Inr \<lparr>stdout = '''', stderr = '''', exit_status = 0\<rparr>, (''/tmp/f'', ''hi\<newline>'') # h)
      else if cmd = ''cat /tmp/f'' then
        (case map_of h ''/tmp/f'' of
           Some c \<Rightarrow> (Inr \<lparr>stdout = c, stderr = '''', exit_status = 0\<rparr>, h)
         | None \<Rightarrow>
             (Inr \<lparr>stdout = '''',
                   stderr = ''cat: /tmp/f: No such file or directory\<newline>'',
                   exit_status = 1\<rparr>, h))
      else
        (Inr \<lparr>stdout = '''', stderr = ''sh: 1: '' @ cmd @ '': not found\<newline>'',
              exit_status = 127\<rparr>, h))"

definition w0 :: "demo_host world" where
  "w0 = \<lparr>host = [], shell_calls = []\<rparr>"

text \<open>
  A world whose host holds the file \<open>/tmp/f\<close> with three lines, the first ended by a
  carriage return and a line feed, the second by a carriage return alone.
\<close>

definition w1 :: "demo_host world" where
  "w1 = \<lparr>host = [(''/tmp/f'', [CHR ''a'', CHR 0x0D, CHR 0x0A, CHR ''b'', CHR 0x0D, CHR ''c''])],
         shell_calls = []\<rparr>"

section \<open>How a request is served\<close>

lemma serve_post_json:
  "serve sh w (post_json v) =
     (case run_command sh w (post_json v) of
        (Inr (v', code), w') \<Rightarrow> (Some \<lparr>status = code, body = JsonBody v'\<rparr>, w')
      | (Inl e, w') \<Rightarrow> (Some \<lparr>status = exc_status e, body = ErrorPage\<rparr>, w'))"
  by (simp add: serve_def app_routes_def matches_def post_json_def)

lemma run_command_dict:
  "run_command sh w (post_json (PDict kvs)) =
     (case os_popen_read sh w (case map_of kvs ''cmd'' of None \<Rightarrow> PNone | Some v \<Rightarrow> v) of
        (Inl e, w') \<Rightarrow> (Inl e, w')
      | (Inr result, w') \<Rightarrow> (Inr (PDict [(''output'', PStr result)], 200), w'))"
  by (simp add: run_command_def get_json_def post_json_def)

lemma os_popen_read_str:
  "CHR 0x00 \<notin> set s \<Longrightarrow> sh (host w) s = (Inr p, h') \<Longrightarrow>
   os_popen_read sh w (PStr s) =
     (Inr (universal_newlines (stdout p)), \<lparr>host = h', shell_calls = shell_calls w @ [s]\<rparr>)"
  by (simp add: os_popen_read_def)

lemma os_popen_read_world:
  "CHR 0x00 \<notin> set s \<Longrightarrow> shell_started (fst (sh (host w) s)) \<Longrightarrow>
   snd (os_popen_read sh w (PStr s)) =
     \<lparr>host = snd (sh (host w) s), shell_calls = shell_calls w @ [s]\<rparr>"
  by (auto simp add: os_popen_read_def split: prod.splits sum.splits)

lemma os_popen_read_nul:
  "CHR 0x00 \<in> set s \<Longrightarrow> os_popen_read sh w (PStr s) = (Inl ValueError, w)"
  by (simp add: os_popen_read_def)

lemma os_popen_read_not_str:
  "(\<And>s. cmd \<noteq> PStr s) \<Longrightarrow> os_popen_read sh w cmd = (Inl TypeError, w)"
  by (cases cmd) (auto simp add: os_popen_read_def)

lemma serve_cmd_ok:
  assumes "map_of kvs ''cmd'' = Some (PStr s)" and "CHR 0x00 \<notin> set s"
    and "sh (host w) s = (Inr p, h')"
  shows "serve sh w (post_json (PDict kvs)) =
           (Some \<lparr>status = 200,
                  body = JsonBody (PDict [(''output'', PStr (universal_newlines (stdout p)))])\<rparr>,
            \<lparr>host = h', shell_calls = shell_calls w @ [s]\<rparr>)"
  using assms by (simp add: serve_post_json run_command_dict os_popen_read_str)

lemma serve_world_str:
  assumes "map_of kvs ''cmd'' = Some (PStr s)" and "CHR 0x00 \<notin> set s"
    and "shell_started (fst (sh (host w) s))"
  shows "snd (serve sh w (post_json (PDict kvs))) =
           \<lparr>host = snd (sh (host w) s), shell_calls = shell_calls w @ [s]\<rparr>"
proof -
  have "snd (serve sh w (post_json (PDict kvs))) = snd (os_popen_read sh w (PStr s))"
    using assms(1) by (simp add: serve_post_json run_command_dict split: prod.splits sum.splits)
  with assms(2,3) show ?thesis by (simp add: os_popen_read_world)
qed

lemma serve_nul:
  assumes "map_of kvs ''cmd'' = Some (PStr s)" and "CHR 0x00 \<in> set s"
  shows "serve sh w (post_json (PDict kvs)) = (Some \<lparr>status = 500, body = ErrorPage\<rparr>, w)"
  using assms by (simp add: serve_post_json run_command_dict os_popen_read_nul)

lemma serve_not_str:
  assumes "\<And>s. (case map_of kvs ''cmd'' of None \<Rightarrow> PNone | Some v \<Rightarrow> v) \<noteq> PStr s"
  shows "run_command sh w (post_json (PDict kvs)) = (Inl TypeError, w)"
    and "serve sh w (post_json (PDict kvs)) = (Some \<lparr>status = 500, body = ErrorPage\<rparr>, w)"
  using os_popen_read_not_str [OF assms, of sh w]
  by (simp_all add: serve_post_json run_command_dict)

text \<open>The handler reads the host state of its world and nothing else of it.\<close>

lemma os_popen_read_host_only:
  assumes "host v = host w"
  shows "fst (os_popen_read sh v cmd) = fst (os_popen_read sh w cmd)"
    and "host (snd (os_popen_read sh v cmd)) = host (snd (os_popen_read sh w cmd))"
  using assms by (cases cmd; simp add: os_popen_read_def split: prod.splits sum.splits)+

lemma run_command_fst:
  "fst (run_command sh u req) =
     (case get_json req of
        Inl e \<Rightarrow> Inl e
      | Inr data \<Rightarrow>
          (case data_get data ''cmd'' of
             Inl e \<Rightarrow> Inl e
           | Inr cmd \<Rightarrow>
               (case fst (os_popen_read sh u cmd) of
                  Inl e \<Rightarrow> Inl e
                | Inr r \<Rightarrow> Inr (PDict [(''output'', PStr r)], 200))))"
  by (simp add: run_command_def split: sum.splits prod.splits)

lemma run_command_snd:
  "snd (run_command sh u req) =
     (case get_json req of
        Inl e \<Rightarrow> u
      | Inr data \<Rightarrow>
          (case data_get data ''cmd'' of
             Inl e \<Rightarrow> u
           | Inr cmd \<Rightarrow> snd (os_popen_read sh u cmd)))"
  by (simp add: run_command_def split: sum.splits prod.splits)

lemma run_command_host_only:
  assumes "host v = host w"
  shows "fst (run_command sh v req) = fst (run_command sh w req)"
    and "host (snd (run_command sh v req)) = host (snd (run_command sh w req))"
  using assms
  by (simp_all add: run_command_fst run_command_snd os_popen_read_host_only [OF assms]
      split: sum.splits)

lemma serve_fst:
  "fst (serve sh u req) =
     (if list_ex (matches req) app_routes then
        (case fst (run_command sh u req) of
           Inr (v, code) \<Rightarrow> Some \<lparr>status = code, body = JsonBody v\<rparr>
         | Inl e \<Rightarrow> Some \<lparr>status = exc_status e, body = ErrorPage\<rparr>)
      else None)"
  by (simp add: serve_def split: sum.splits prod.splits)

lemma serve_snd:
  "snd (serve sh u req) =
     (if list_ex (matches req) app_routes then snd (run_command sh u req) else u)"
  by (simp add: serve_def split: sum.splits prod.splits)

lemma serve_host_only:
  assumes "host v = host w"
  shows "fst (serve sh v req) = fst (serve sh w req)"
    and "host (snd (serve sh v req)) = host (snd (serve sh w req))"
  using assms
  by (simp_all add: serve_fst serve_snd run_command_host_only [OF assms])

lemma serve_all_Cons_fst:
  "fst (serve_all sh w (r # rs)) = fst (serve sh w r) # fst (serve_all sh (snd (serve sh w r)) rs)"
  by (simp split: prod.splits)

lemma serve_all_Cons_snd:
  "snd (serve_all sh w (r # rs)) = snd (serve_all sh (snd (serve sh w r)) rs)"
  by (simp split: prod.splits)

lemma serve_all_nth:
  "n < length reqs \<Longrightarrow> host v = host (snd (serve_all sh w (take n reqs))) \<Longrightarrow>
   fst (serve_all sh w reqs) ! n = fst (serve sh v (reqs ! n))"
proof (induction reqs arbitrary: w n)
  case Nil
  then show ?case by simp
next
  case (Cons r rs)
  show ?case
  proof (cases n)
    case 0
    with Cons.prems have "host v = host w" by simp
    then have "fst (serve sh v r) = fst (serve sh w r)"
      by (rule serve_host_only(1))
    with 0 show ?thesis
      by (simp only: serve_all_Cons_fst nth_Cons_0)
  next
    case (Suc m)
    from Cons.prems Suc have m: "m < length rs" by simp
    from Cons.prems Suc
    have h: "host v = host (snd (serve_all sh (snd (serve sh w r)) (take m rs)))"
      by (simp only: take_Suc_Cons serve_all_Cons_snd)
    from Cons.IH [OF m h] Suc show ?thesis
      by (simp only: serve_all_Cons_fst nth_Cons_Suc)
  qed
qed

lemma os_popen_read_Inr:
  assumes "fst (os_popen_read sh w cmd) = Inr r"
  shows "\<exists>s p. cmd = PStr s \<and> CHR 0x00 \<notin> set s \<and> fst (sh (host w) s) = Inr p
               \<and> r = universal_newlines (stdout p)"
  using assms
  by (cases cmd) (auto simp add: os_popen_read_def split: prod.splits sum.splits if_splits)

lemma data_get_str:
  assumes "data_get d k = Inr (PStr s)"
  shows "\<exists>kvs. d = PDict kvs \<and> map_of kvs k = Some (PStr s)"
  using assms by (cases d) (auto split: option.splits)

lemma is_str_iff: "is_str v = (\<exists>s. v = PStr s)"
  by (cases v) simp_all

lemma exc_status_not_200: "exc_status e \<noteq> 200"
  by (cases e) simp_all

lemma routed_iff:
  "list_ex (matches req) app_routes = (req_method req = POST \<and> req_path req = ''/'')"
  by (auto simp add: app_routes_def matches_def)

text \<open>A text without carriage returns is read as it was written.\<close>

lemma universal_newlines_id:
  "CHR 0x0D \<notin> set cs \<Longrightarrow> universal_newlines cs = cs"
  by (induction cs rule: universal_newlines.induct) auto

section \<open>The output returned for a command\<close>




section \<open>A body without the key \<open>cmd\<close>\<close>

text \<open>
  C2, as the code has it. When the posted JSON object has no key \<open>cmd\<close>, the access
  \<open>data.get("cmd")\<close> does not raise: it returns \<open>None\<close>. \<open>None\<close> is passed to \<open>os.popen\<close>,
  which raises \<open>TypeError\<close> before any shell is started; the fault is not handled, the
  answer has status 500, and no command has run.
\<close>

theorem missing_cmd_is_500:
  assumes "map_of kvs ''cmd'' = None"
  shows "data_get (PDict kvs) ''cmd'' = Inr PNone
       \<and> run_command sh w (post_json (PDict kvs)) = (Inl TypeError, w)
       \<and> serve sh w (post_json (PDict kvs)) = (Some \<lparr>status = 500, body = ErrorPage\<rparr>, w)"
  using assms by (simp add: serve_not_str)

theorem missing_cmd_is_500_witness:
  "map_of [(''command'', PStr ''echo hello'')] ''cmd'' = None
   \<and> data_get (PDict [(''command'', PStr ''echo hello'')]) ''cmd'' = Inr PNone
   \<and> serve demo_shell w0 (post_json (PDict [(''command'', PStr ''echo hello'')])) =
       (Some \<lparr>status = 500, body = ErrorPage\<rparr>, w0)"
proof -
  have absent: "map_of [(''command'', PStr ''echo hello'')] ''cmd'' = None" by simp
  from missing_cmd_is_500 [OF absent, of demo_shell w0] absent show ?thesis by simp
qed

text \<open>
  C2 as stated offers two outcomes: the absent value reaches the shell and the shell's
  complaint comes back as output, or the access raises. For the body \<open>{}\<close> neither
  happens: the access returns \<open>None\<close>, the answer is 500, and the shell has not been
  called.
\<close>

theorem missing_cmd_counterexample:
  "data_get (PDict []) ''cmd'' = Inr PNone
   \<and> serve demo_shell w0 (post_json (PDict [])) = (Some \<lparr>status = 500, body = ErrorPage\<rparr>, w0)
   \<and> shell_calls (snd (serve demo_shell w0 (post_json (PDict [])))) = []"
  by (simp add: serve_not_str w0_def)

section \<open>Commands that exit with a non-zero status\<close>




section \<open>\<open>echo hello\<close>\<close>

text \<open>
  C4. On a host whose shell runs \<open>echo hello\<close> by writing \<open>hello\<close> and a newline on
  standard output, a POST of \<open>{"cmd": "echo hello"}\<close> is answered with status 200 and the
  JSON object \<open>{"output": "hello\n"}\<close>.
\<close>

theorem echo_hello:
  assumes "sh (host w) ''echo hello'' = (Inr p, h')" and "stdout p = ''hello\<newline>''"
  shows "fst (serve sh w (post_json (PDict [(''cmd'', PStr ''echo hello'')]))) =
           Some \<lparr>status = 200, body = JsonBody (PDict [(''output'', PStr ''hello\<newline>'')])\<rparr>"
proof -
  have "CHR 0x00 \<notin> set ''echo hello''" by simp
  with assms(1) have "serve sh w (post_json (PDict [(''cmd'', PStr ''echo hello'')])) =
      (Some \<lparr>status = 200,
             body = JsonBody (PDict [(''output'', PStr (universal_newlines (stdout p)))])\<rparr>,
       \<lparr>host = h', shell_calls = shell_calls w @ [''echo hello'']\<rparr>)"
    by (intro serve_cmd_ok) simp_all
  with assms(2) show ?thesis by simp
qed

theorem echo_hello_witness:
  "demo_shell (host w0) ''echo hello'' =
     (Inr \<lparr>stdout = ''hello\<newline>'', stderr = '''', exit_status = 0\<rparr>, [])
   \<and> fst (serve demo_shell w0 (post_json (PDict [(''cmd'', PStr ''echo hello'')]))) =
       Some \<lparr>status = 200, body = JsonBody (PDict [(''output'', PStr ''hello\<newline>'')])\<rparr>"
proof -
  have run: "demo_shell (host w0) ''echo hello'' =
      (Inr \<lparr>stdout = ''hello\<newline>'', stderr = '''', exit_status = 0\<rparr>, [])"
    by (simp add: demo_shell_def w0_def)
  have "stdout \<lparr>stdout = ''hello\<newline>'', stderr = '''', exit_status = 0\<rparr> = ''hello\<newline>''"
    by simp
  from echo_hello [where sh = demo_shell and w = w0, OF run this] run show ?thesis by simp
qed

section \<open>The command reaches the shell unchanged\<close>

text \<open>
  C5, as the code has it. The handler itself parses, escapes, checks and filters nothing:
  whenever a shell is started for a request, its command line is the text stored under
  \<open>cmd\<close>, character for character, and the host is left in the state in which the shell,
  run on that text, leaves it; shell metacharacters pass like any other character. Not
  every text gets that far: this holds for a text without the character NUL on which
  the host starts its shell.
\<close>

theorem cmd_handed_verbatim:
  assumes "map_of kvs ''cmd'' = Some (PStr s)" and "CHR 0x00 \<notin> set s"
    and "shell_started (fst (sh (host w) s))"
  shows "snd (serve sh w (post_json (PDict kvs))) =
           \<lparr>host = snd (sh (host w) s), shell_calls = shell_calls w @ [s]\<rparr>"
  using assms by (rule serve_world_str)

theorem cmd_handed_verbatim_witness:
  "map_of [(''cmd'', PStr ''echo out; echo err >&2'')] ''cmd'' =
     Some (PStr ''echo out; echo err >&2'')
   \<and> CHR 0x00 \<notin> set ''echo out; echo err >&2''
   \<and> shell_started (fst (demo_shell (host w0) ''echo out; echo err >&2''))
   \<and> shell_calls (snd (serve demo_shell w0
        (post_json (PDict [(''cmd'', PStr ''echo out; echo err >&2'')])))) =
       [''echo out; echo err >&2'']"
proof -
  have present: "map_of [(''cmd'', PStr ''echo out; echo err >&2'')] ''cmd'' =
     Some (PStr ''echo out; echo err >&2'')" by simp
  have nonul: "CHR 0x00 \<notin> set ''echo out; echo err >&2''" by simp
  have started: "shell_started (fst (demo_shell (host w0) ''echo out; echo err >&2''))"
    by (simp add: demo_shell_def)
  from cmd_handed_verbatim [where sh = demo_shell and w = w0, OF present nonul started] present nonul started show ?thesis
    by (simp add: w0_def)
qed

text \<open>
  C5 as stated has any text accepted and handed to the shell. The text \<open>echo\<close>, a space
  and the character NUL (in JSON, \<open>"echo \u0000"\<close>) is refused by \<open>os.popen\<close>: the answer
  is 500 and no shell has been started.
\<close>

theorem nul_in_cmd_counterexample:
  "serve demo_shell w0 (post_json (PDict [(''cmd'', PStr (''echo '' @ [CHR 0x00]))])) =
     (Some \<lparr>status = 500, body = ErrorPage\<rparr>, w0)
   \<and> shell_calls (snd (serve demo_shell w0
        (post_json (PDict [(''cmd'', PStr (''echo '' @ [CHR 0x00]))])))) = []"
  by (simp add: serve_nul w0_def)

section \<open>Requests served one after the other\<close>

text \<open>
  C6, as the code has it. The handler keeps nothing between calls: in a sequence of
  requests, the answer to request \<open>n\<close> is the answer that request gets when it is served
  alone in any world whose host is in the state the earlier requests left. So the answer
  is a function of the body of call \<open>n\<close> and of the host state at that moment, and of
  nothing else; the host, which the commands of earlier calls may have changed, is what
  the calls share.
\<close>

theorem response_from_body_and_host:
  assumes "n < length reqs"
    and "host v = host (snd (serve_all sh w (take n reqs)))"
  shows "fst (serve_all sh w reqs) ! n = fst (serve sh v (reqs ! n))"
  using assms by (rule serve_all_nth)

theorem response_from_body_and_host_witness:
  "(1::nat) < length [post_json (PDict [(''cmd'', PStr ''echo hi > /tmp/f'')]),
                     post_json (PDict [(''cmd'', PStr ''cat /tmp/f'')])]
   \<and> host \<lparr>host = [(''/tmp/f'', ''hi\<newline>'')], shell_calls = []\<rparr> =
       host (snd (serve_all demo_shell w0
         (take 1 [post_json (PDict [(''cmd'', PStr ''echo hi > /tmp/f'')]),
                  post_json (PDict [(''cmd'', PStr ''cat /tmp/f'')])])))
   \<and> fst (serve_all demo_shell w0
         [post_json (PDict [(''cmd'', PStr ''echo hi > /tmp/f'')]),
          post_json (PDict [(''cmd'', PStr ''cat /tmp/f'')])]) ! 1 =
       Some \<lparr>status = 200, body = JsonBody (PDict [(''output'', PStr ''hi\<newline>'')])\<rparr>"
proof -
  let ?reqs = "[post_json (PDict [(''cmd'', PStr ''echo hi > /tmp/f'')]),
                post_json (PDict [(''cmd'', PStr ''cat /tmp/f'')])]"
  let ?v = "\<lparr>host = [(''/tmp/f'', ''hi\<newline>'')], shell_calls = []\<rparr> :: demo_host world"
  have len: "(1::nat) < length ?reqs" by simp
  have hst: "host ?v = host (snd (serve_all demo_shell w0 (take 1 ?reqs)))"
    by (simp add: serve_post_json run_command_dict os_popen_read_def demo_shell_def w0_def)
  have alone: "fst (serve demo_shell ?v (?reqs ! 1)) =
      Some \<lparr>status = 200, body = JsonBody (PDict [(''output'', PStr ''hi\<newline>'')])\<rparr>"
    by (simp add: serve_post_json run_command_dict os_popen_read_def demo_shell_def)
  from response_from_body_and_host [OF len hst] alone len hst show ?thesis by simp
qed

text \<open>
  C6 as stated makes the answer to call \<open>n\<close> a function of the body of call \<open>n\<close> alone. The
  same second request, \<open>cat /tmp/f\<close>, is answered with \<open>hi\<close> after a first request that
  wrote the file, and with empty output after a first request that did not.
\<close>

theorem sequential_posts_counterexample:
  "fst (serve_all demo_shell w0
         [post_json (PDict [(''cmd'', PStr ''echo hi > /tmp/f'')]),
          post_json (PDict [(''cmd'', PStr ''cat /tmp/f'')])]) =
     [Some \<lparr>status = 200, body = JsonBody (PDict [(''output'', PStr '''')])\<rparr>,
      Some \<lparr>status = 200, body = JsonBody (PDict [(''output'', PStr ''hi\<newline>'')])\<rparr>]
   \<and> fst (serve_all demo_shell w0
         [post_json (PDict [(''cmd'', PStr ''exit 1'')]),
          post_json (PDict [(''cmd'', PStr ''cat /tmp/f'')])]) =
     [Some \<lparr>status = 200, body = JsonBody (PDict [(''output'', PStr '''')])\<rparr>,
      Some \<lparr>status = 200, body = JsonBody (PDict [(''output'', PStr '''')])\<rparr>]"
  by (simp add: serve_post_json run_command_dict os_popen_read_def demo_shell_def w0_def)

section \<open>The route and the shape of a success\<close>

text \<open>
  C7. A request reaches the program's code exactly when it is a POST to \<open>/\<close>: this is the
  one route of the program. Every answer with status 200 comes from a request whose body
  is a JSON object with a string under \<open>cmd\<close>, and is a JSON object with the single key
  \<open>output\<close>, whose value is what the process of that very command wrote on its standard
  output, as the text-mode read returns it.
\<close>

theorem single_post_route:
  "(fst (serve sh w req) \<noteq> None) = (req_method req = POST \<and> req_path req = ''/'')
   \<and> (\<forall>r. fst (serve sh w req) = Some r \<and> status r = 200 \<longrightarrow>
        (\<exists>kvs s p. req_json req = Inr (PDict kvs) \<and> map_of kvs ''cmd'' = Some (PStr s)
              \<and> fst (sh (host w) s) = Inr p
              \<and> body r = JsonBody (PDict [(''output'', PStr (universal_newlines (stdout p)))])))"
proof (intro conjI allI impI)
  show "(fst (serve sh w req) \<noteq> None) = (req_method req = POST \<and> req_path req = ''/'')"
    by (simp add: serve_fst routed_iff split: sum.splits prod.splits)
next
  fix r
  assume a: "fst (serve sh w req) = Some r \<and> status r = 200"
  show "\<exists>kvs s p. req_json req = Inr (PDict kvs) \<and> map_of kvs ''cmd'' = Some (PStr s)
             \<and> fst (sh (host w) s) = Inr p
             \<and> body r = JsonBody (PDict [(''output'', PStr (universal_newlines (stdout p)))])"
  proof (cases "fst (run_command sh w req)")
    case (Inl e)
    with a have "exc_status e = 200"
      by (auto simp add: serve_fst split: if_splits)
    with exc_status_not_200 show ?thesis by blast
  next
    case (Inr vc)
    then obtain d cmd t where
      d: "req_json req = Inr d" and c: "data_get d ''cmd'' = Inr cmd" and
      t: "fst (os_popen_read sh w cmd) = Inr t" and vc: "vc = (PDict [(''output'', PStr t)], 200)"
      by (auto simp add: run_command_fst get_json_def split: sum.splits)
    from os_popen_read_Inr [OF t] obtain s p where
      sp: "cmd = PStr s" "fst (sh (host w) s) = Inr p" "t = universal_newlines (stdout p)"
      by blast
    from c sp(1) data_get_str obtain kvs where
      kvs: "d = PDict kvs" "map_of kvs ''cmd'' = Some (PStr s)" by blast
    from a Inr vc have "body r = JsonBody (PDict [(''output'', PStr t)])"
      by (auto simp add: serve_fst split: if_splits)
    with d kvs sp show ?thesis by blast
  qed
qed

theorem single_post_route_witness:
  "fst (serve demo_shell w1 (post_json (PDict [(''cmd'', PStr ''cat /tmp/f'')]))) =
     Some \<lparr>status = 200, body = JsonBody (PDict [(''output'', PStr ''a\<newline>b\<newline>c'')])\<rparr>
   \<and> status \<lparr>status = 200, body = JsonBody (PDict [(''output'', PStr ''a\<newline>b\<newline>c'')])\<rparr> = 200
   \<and> (\<exists>kvs s p. req_json (post_json (PDict [(''cmd'', PStr ''cat /tmp/f'')])) = Inr (PDict kvs)
           \<and> map_of kvs ''cmd'' = Some (PStr s)
           \<and> fst (demo_shell (host w1) s) = Inr p
           \<and> body \<lparr>status = 200, body = JsonBody (PDict [(''output'', PStr ''a\<newline>b\<newline>c'')])\<rparr> =
               JsonBody (PDict [(''output'', PStr (universal_newlines (stdout p)))]))"
proof -
  let ?req = "post_json (PDict [(''cmd'', PStr ''cat /tmp/f'')])"
  let ?r = "\<lparr>status = 200, body = JsonBody (PDict [(''output'', PStr ''a\<newline>b\<newline>c'')])\<rparr>"
  have served: "fst (serve demo_shell w1 ?req) = Some ?r"
    by (simp add: serve_post_json run_command_dict os_popen_read_def demo_shell_def w1_def)
  have ok: "status ?r = 200" by simp
  from single_post_route [of demo_shell w1 ?req]
  have "\<forall>r. fst (serve demo_shell w1 ?req) = Some r \<and> status r = 200 \<longrightarrow>
        (\<exists>kvs s p. req_json ?req = Inr (PDict kvs) \<and> map_of kvs ''cmd'' = Some (PStr s)
              \<and> fst (demo_shell (host w1) s) = Inr p
              \<and> body r = JsonBody (PDict [(''output'', PStr (universal_newlines (stdout p)))]))"
    by blast
  with served ok show ?thesis by blast
qed

section \<open>A \<open>cmd\<close> that is not a string\<close>

text \<open>
  C9. When the JSON object has a key \<open>cmd\<close> whose value is not a string (a number, a list,
  \<open>null\<close>, ...), that value is passed to \<open>os.popen\<close>, which raises \<open>TypeError\<close>; the fault
  is not handled, the answer has status 500, and the world is unchanged: no command has
  been handed to the shell.
\<close>

theorem non_string_cmd_is_500:
  assumes "map_of kvs ''cmd'' = Some v" and "\<not> is_str v"
  shows "run_command sh w (post_json (PDict kvs)) = (Inl TypeError, w)
       \<and> serve sh w (post_json (PDict kvs)) = (Some \<lparr>status = 500, body = ErrorPage\<rparr>, w)"
proof -
  from assms have "\<And>s. (case map_of kvs ''cmd'' of None \<Rightarrow> PNone | Some v \<Rightarrow> v) \<noteq> PStr s"
    by (auto simp add: is_str_iff)
  then show ?thesis by (simp add: serve_not_str)
qed

theorem non_string_cmd_is_500_witness:
  "map_of [(''cmd'', PList [PStr ''echo'', PStr ''hello''])] ''cmd'' =
     Some (PList [PStr ''echo'', PStr ''hello''])
   \<and> \<not> is_str (PList [PStr ''echo'', PStr ''hello''])
   \<and> serve demo_shell w0 (post_json (PDict [(''cmd'', PList [PStr ''echo'', PStr ''hello''])])) =
       (Some \<lparr>status = 500, body = ErrorPage\<rparr>, w0)"
proof -
  have present: "map_of [(''cmd'', PList [PStr ''echo'', PStr ''hello''])] ''cmd'' =
     Some (PList [PStr ''echo'', PStr ''hello''])" by simp
  have nonstr: "\<not> is_str (PList [PStr ''echo'', PStr ''hello''])" by simp
  from non_string_cmd_is_500 [OF present nonstr, of demo_shell w0] present nonstr
  show ?thesis by simp
qed

section \<open>The empty command\<close>

text \<open>
  C10. When \<open>cmd\<close> is the empty string, the shell is called with the empty command line;
  on a host whose shell then writes nothing on standard output, the answer is status 200
  with \<open>output\<close> equal to the empty string.
\<close>

theorem empty_cmd_is_200:
  assumes "sh (host w) '''' = (Inr p, h')" and "stdout p = ''''"
  shows "serve sh w (post_json (PDict [(''cmd'', PStr '''')])) =
           (Some \<lparr>status = 200, body = JsonBody (PDict [(''output'', PStr '''')])\<rparr>,
            \<lparr>host = h', shell_calls = shell_calls w @ ['''']\<rparr>)"
  using assms by (simp add: serve_cmd_ok)

theorem empty_cmd_is_200_witness:
  "demo_shell (host w0) '''' = (Inr \<lparr>stdout = '''', stderr = '''', exit_status = 0\<rparr>, [])
   \<and> serve demo_shell w0 (post_json (PDict [(''cmd'', PStr '''')])) =
       (Some \<lparr>status = 200, body = JsonBody (PDict [(''output'', PStr '''')])\<rparr>,
        \<lparr>host = [], shell_calls = ['''']\<rparr>)"
proof -
  have run: "demo_shell (host w0) '''' =
      (Inr \<lparr>stdout = '''', stderr = '''', exit_status = 0\<rparr>, [])"
    by (simp add: demo_shell_def w0_def)
  have "stdout \<lparr>stdout = '''', stderr = '''', exit_status = 0\<rparr> = ''''" by simp
  from empty_cmd_is_200 [where sh = demo_shell and w = w0, OF run this] run show ?thesis
    by (simp add: w0_def)
qed

end
